theory Spec2Isabelle
  imports Main
begin

section \<open>Theme values\<close>

text \<open>
  The source declares \<^verbatim>\<open>type Theme = "dark" | "light"\<close>: a string type with exactly two
  inhabitants. It is a two-constructor datatype here; \<open>Theme_str\<close> gives the string
  that the program writes to storage and to the class list of the document root.
\<close>

datatype Theme = Dark | Light

fun Theme_str :: "Theme \<Rightarrow> string" where
  "Theme_str Dark = ''dark''"
| "Theme_str Light = ''light''"

section \<open>The browser environment\<close>

text \<open>
  JavaScript exceptions are values. \<open>Error msg\<close> is \<^verbatim>\<open>new Error(msg)\<close>;
  \<open>QuotaExceededError\<close> is what \<^verbatim>\<open>localStorage.setItem\<close> throws when the browser
  refuses the write (storage disabled, quota exhausted).
\<close>

datatype exn = Error string | QuotaExceededError

text \<open>
  \<^verbatim>\<open>localStorage\<close>: the stored items (\<open>None\<close> is JavaScript's \<^verbatim>\<open>null\<close> of a missing key),
  whether the browser refuses writes, and the history of the completed \<^verbatim>\<open>setItem\<close> calls,
  oldest first.
\<close>

record Storage =
  items :: "string \<rightharpoonup> string"
  setItemFails :: bool
  setItemLog :: "(string \<times> string) list"

definition getItem :: "Storage \<Rightarrow> string \<Rightarrow> string option" where
  "getItem st k = items st k"

definition setItem :: "Storage \<Rightarrow> string \<Rightarrow> string \<Rightarrow> exn + Storage" where
  "setItem st k v =
     (if setItemFails st then Inl QuotaExceededError
      else Inr (st\<lparr>items := (items st)(k \<mapsto> v), setItemLog := setItemLog st @ [(k, v)]\<rparr>))"

text \<open>
  \<^verbatim>\<open>document.documentElement.classList\<close> is a token list: \<^verbatim>\<open>contains\<close> tests membership,
  \<^verbatim>\<open>remove\<close> deletes every given token, \<^verbatim>\<open>add\<close> appends a token that is not yet there.
\<close>

type_synonym DOMTokenList = "string list"

definition contains :: "DOMTokenList \<Rightarrow> string \<Rightarrow> bool" where
  "contains cl tok = (tok \<in> set cl)"

definition remove :: "DOMTokenList \<Rightarrow> string list \<Rightarrow> DOMTokenList" where
  "remove cl toks = filter (\<lambda>c. c \<notin> set toks) cl"

definition add :: "DOMTokenList \<Rightarrow> string \<Rightarrow> DOMTokenList" where
  "add cl tok = (if tok \<in> set cl then cl else cl @ [tok])"

text \<open>
  What the provider touches of \<^verbatim>\<open>window\<close>. A render pass without a browser
  (\<^verbatim>\<open>typeof window === "undefined"\<close>) is \<open>None :: Window option\<close>.
\<close>

record Window =
  localStorage :: Storage
  classList :: DOMTokenList

section \<open>The theme provider\<close>

definition isValidTheme :: "string option \<Rightarrow> bool" where
  "isValidTheme v = (v = Some ''dark'' \<or> v = Some ''light'')"

text \<open>
  \<open>isValidTheme\<close> is a type guard: where it holds, the source returns the stored string
  itself at type \<open>Theme\<close>. \<open>asTheme\<close> is that narrowing; it is only applied under the
  guard (see \<open>asTheme_str\<close>).
\<close>

definition asTheme :: "string option \<Rightarrow> Theme" where
  "asTheme v = (if v = Some ''dark'' then Dark else Light)"

text \<open>The initialiser handed to \<^verbatim>\<open>useState\<close>.\<close>

definition initialTheme :: "Window option \<Rightarrow> Theme" where
  "initialTheme w =
     (case w of
        Some win \<Rightarrow>
          (let stored = getItem (localStorage win) ''theme''
           in if isValidTheme stored then asTheme stored
              else if contains (classList win) ''dark'' then Dark else Light)
      | None \<Rightarrow> Dark)"

text \<open>The mounted provider: its state variable and the browser it runs in.\<close>

record App =
  theme :: Theme
  window :: Window

text \<open>
  The callback handed to \<^verbatim>\<open>useEffect\<close>, with dependency list \<^verbatim>\<open>[theme]\<close>. The class
  list is updated before \<^verbatim>\<open>setItem\<close> is called, so an exception of \<^verbatim>\<open>setItem\<close> leaves
  the effect with the class list already changed: \<open>Inl\<close> carries the exception and the
  browser as it is then.
\<close>

definition syncEffect :: "Theme \<Rightarrow> Window \<Rightarrow> (exn \<times> Window) + Window" where
  "syncEffect t w =
     (let w1 = w\<lparr>classList := remove (classList w) [''light'', ''dark'']\<rparr>;
          w2 = w1\<lparr>classList := add (classList w1) (Theme_str t)\<rparr>
      in case setItem (localStorage w2) ''theme'' (Theme_str t) of
           Inl e \<Rightarrow> Inl (e, w2)
         | Inr st \<Rightarrow> Inr (w2\<lparr>localStorage := st\<rparr>))"

text \<open>
  React commits a render whose dependency \<^verbatim>\<open>theme\<close> is new by running the effect. The
  provider has no handler around the effect, so its exception leaves the commit.
\<close>

definition commit :: "Theme \<Rightarrow> Window \<Rightarrow> (exn \<times> App) + App" where
  "commit t w =
     (case syncEffect t w of
        Inl (e, w') \<Rightarrow> Inl (e, \<lparr>theme = t, window = w'\<rparr>)
      | Inr w' \<Rightarrow> Inr \<lparr>theme = t, window = w'\<rparr>)"

text \<open>Mounting in a browser: the initialiser runs, then the effect runs for the first time.\<close>

definition mount :: "Window \<Rightarrow> (exn \<times> App) + App" where
  "mount w = commit (initialTheme (Some w)) w"

text \<open>
  The provider between two renders: the state and the browser of the last render, and
  the updaters that calls of \<^verbatim>\<open>setTheme\<close> have queued since then, oldest first.
\<close>

record Pending =
  rendered :: App
  queue :: "(Theme \<Rightarrow> Theme) list"

text \<open>A rendered provider with no update pending.\<close>

definition idle :: "App \<Rightarrow> Pending" where
  "idle a = \<lparr>rendered = a, queue = []\<rparr>"

text \<open>
  \<^verbatim>\<open>setTheme(f)\<close> queues the updater and returns. It runs neither the updater nor the
  effect and touches nothing of the browser; it has no exception.
\<close>

definition setTheme :: "(Theme \<Rightarrow> Theme) \<Rightarrow> Pending \<Rightarrow> Pending" where
  "setTheme f p = p\<lparr>queue := queue p @ [f]\<rparr>"

text \<open>The updater \<^verbatim>\<open>(prev) => (prev === "dark" ? "light" : "dark")\<close> of \<open>toggleTheme\<close>.\<close>

definition nextTheme :: "Theme \<Rightarrow> Theme" where
  "nextTheme prev = (if prev = Dark then Light else Dark)"

definition toggleTheme :: "Pending \<Rightarrow> Pending" where
  "toggleTheme = setTheme nextTheme"

text \<open>
  The state of the next render: the queued updaters applied, in the order of their
  calls, to the state of the last render.
\<close>

definition nextState :: "Pending \<Rightarrow> Theme" where
  "nextState p = fold (\<lambda>f s. f s) (queue p) (theme (rendered p))"

text \<open>
  The next render and its commit. All updates queued in one turn go into one render.
  The effect is keyed on \<^verbatim>\<open>[theme]\<close>: a state equal to that of the last render runs no
  effect, a different one is committed with the effect.
\<close>

definition render :: "Pending \<Rightarrow> (exn \<times> App) + App" where
  "render p =
     (let t = nextState p
      in if t = theme (rendered p) then Inr (rendered p)
         else commit t (window (rendered p)))"

text \<open>
  A sequence of \<open>n\<close> calls of \<open>toggleTheme\<close>, each in a UI event of its own: each call
  is rendered and committed before the next one. It ends at the first exception.
\<close>

fun toggles :: "nat \<Rightarrow> App \<Rightarrow> (exn \<times> App) + App" where
  "toggles 0 a = Inr a"
| "toggles (Suc n) a =
     (case render (toggleTheme (idle a)) of Inl x \<Rightarrow> Inl x | Inr a' \<Rightarrow> toggles n a')"

text \<open>The provider as a commit leaves it, whether the commit returned or threw.\<close>

definition outcome :: "(exn \<times> App) + App \<Rightarrow> App" where
  "outcome r = (case r of Inl (e, a) \<Rightarrow> a | Inr a \<Rightarrow> a)"

section \<open>The context accessor\<close>

text \<open>
  The context is created with the default \<^verbatim>\<open>undefined\<close>; \<open>ThemeProvider\<close> supplies the
  object \<^verbatim>\<open>{ theme, toggleTheme }\<close> to its subtree. \<open>useContext\<close> takes the enclosing
  provider, \<open>None\<close> when the consumer is rendered outside every provider.
\<close>

record ThemeContextValue =
  ctx_theme :: Theme
  ctx_toggleTheme :: "Pending \<Rightarrow> Pending"

definition useContext :: "App option \<Rightarrow> ThemeContextValue option" where
  "useContext provider =
     (case provider of
        None \<Rightarrow> None
      | Some a \<Rightarrow> Some \<lparr>ctx_theme = theme a, ctx_toggleTheme = toggleTheme\<rparr>)"

definition useTheme :: "App option \<Rightarrow> exn + ThemeContextValue" where
  "useTheme provider =
     (case useContext provider of
        None \<Rightarrow> Inl (Error ''useTheme must be used within a ThemeProvider'')
      | Some c \<Rightarrow> Inr c)"

section \<open>Concrete browsers\<close>

text \<open>An empty storage that accepts writes, and one whose writes are refused.\<close>

definition emptyStorage :: Storage where
  "emptyStorage = \<lparr>items = Map.empty, setItemFails = False, setItemLog = []\<rparr>"

definition refusingStorage :: Storage where
  "refusingStorage = \<lparr>items = Map.empty, setItemFails = True, setItemLog = []\<rparr>"

text \<open>A browser whose storage holds the invalid value \<^verbatim>\<open>"blue"\<close> and whose root is marked dark.\<close>

definition blueWindow :: Window where
  "blueWindow =
     \<lparr>localStorage = emptyStorage\<lparr>items := [''theme'' \<mapsto> ''blue'']\<rparr>,
      classList = [''dark'']\<rparr>"

text \<open>A mounted dark provider, in a browser that accepts writes and in one that refuses them.\<close>

definition darkApp :: App where
  "darkApp =
     \<lparr>theme = Dark,
      window = \<lparr>localStorage = emptyStorage\<lparr>items := [''theme'' \<mapsto> ''dark'']\<rparr>,
                classList = [''dark'']\<rparr>\<rparr>"

text \<open>The dark provider after one toggle.\<close>

definition lightApp :: App where
  "lightApp =
     \<lparr>theme = Light,
      window = \<lparr>localStorage = \<lparr>items = [''theme'' \<mapsto> ''light''], setItemFails = False,
                                 setItemLog = [(''theme'', ''light'')]\<rparr>,
                classList = [''light'']\<rparr>\<rparr>"

definition refusedApp :: App where
  "refusedApp =
     \<lparr>theme = Dark, window = \<lparr>localStorage = refusingStorage, classList = [''dark'']\<rparr>\<rparr>"

section \<open>Basic facts\<close>

lemma asTheme_str: "isValidTheme v \<Longrightarrow> Some (Theme_str (asTheme v)) = v"
  by (auto simp: isValidTheme_def asTheme_def)

lemma Theme_str_inj: "Theme_str s = Theme_str t \<longleftrightarrow> s = t"
  by (cases s; cases t) simp_all

lemma isValidTheme_Theme_str: "isValidTheme (Some (Theme_str t))"
  by (cases t) (simp_all add: isValidTheme_def)

lemma asTheme_Theme_str: "asTheme (Some (Theme_str t)) = t"
  by (cases t) (simp_all add: asTheme_def)

section \<open>Initialisation\<close>

text \<open>
  C8. When the initialiser runs where no window exists (a render pass outside a browser),
  the initial theme is dark.
\<close>

theorem initialTheme_no_window: "initialTheme None = Dark"
  by (simp add: initialTheme_def)

text \<open>
  C2. In a browser the initialiser first reads the item stored under the key \<^verbatim>\<open>"theme"\<close>.
  A stored \<^verbatim>\<open>"dark"\<close> or \<^verbatim>\<open>"light"\<close> is the initial theme, whatever classes the document
  root carries. Any other stored value, also a missing one, is rejected: the initial
  theme is then dark if the root carries the class \<^verbatim>\<open>dark\<close> and light otherwise.
\<close>

theorem initialTheme_browser:
  "initialTheme (Some w) =
     (if getItem (localStorage w) ''theme'' = Some ''dark'' then Dark
      else if getItem (localStorage w) ''theme'' = Some ''light'' then Light
      else if contains (classList w) ''dark'' then Dark
      else Light)"
  by (simp add: initialTheme_def isValidTheme_def asTheme_def Let_def)

section \<open>Reading the context\<close>

text \<open>
  C6. \<open>useTheme\<close> called outside every provider throws the error
  \<^verbatim>\<open>useTheme must be used within a ThemeProvider\<close> and returns no default; called inside a
  provider it does not throw and returns the provider's value.
\<close>

theorem useTheme_guard:
  "useTheme None = Inl (Error ''useTheme must be used within a ThemeProvider'') \<and>
   useTheme (Some a) = Inr \<lparr>ctx_theme = theme a, ctx_toggleTheme = toggleTheme\<rparr>"
  by (simp add: useTheme_def useContext_def)

section \<open>The synchronisation effect\<close>

lemma contains_marker_dark:
  "contains (add (remove cl [''light'', ''dark'']) (Theme_str t)) ''dark'' = (t = Dark)"
  by (cases t) (auto simp: contains_def add_def remove_def)

lemma contains_marker_light:
  "contains (add (remove cl [''light'', ''dark'']) (Theme_str t)) ''light'' = (t = Light)"
  by (cases t) (auto simp: contains_def add_def remove_def)

lemma syncEffect_accepted:
  "\<not> setItemFails (localStorage w) \<Longrightarrow>
   syncEffect t w =
     Inr \<lparr>localStorage = (localStorage w)
            \<lparr>items := (items (localStorage w))(''theme'' \<mapsto> Theme_str t),
             setItemLog := setItemLog (localStorage w) @ [(''theme'', Theme_str t)]\<rparr>,
          classList = add (remove (classList w) [''light'', ''dark'']) (Theme_str t)\<rparr>"
  by (simp add: syncEffect_def setItem_def Let_def)

lemma syncEffect_refused:
  "setItemFails (localStorage w) \<Longrightarrow>
   syncEffect t w =
     Inl (QuotaExceededError,
          w\<lparr>classList := add (remove (classList w) [''light'', ''dark'']) (Theme_str t)\<rparr>)"
  by (simp add: syncEffect_def setItem_def Let_def)

lemma commit_accepted:
  "\<not> setItemFails (localStorage w) \<Longrightarrow>
   commit t w =
     Inr \<lparr>theme = t,
          window = \<lparr>localStorage = (localStorage w)
                     \<lparr>items := (items (localStorage w))(''theme'' \<mapsto> Theme_str t),
                      setItemLog := setItemLog (localStorage w) @ [(''theme'', Theme_str t)]\<rparr>,
                   classList = add (remove (classList w) [''light'', ''dark'']) (Theme_str t)\<rparr>\<rparr>"
  by (simp add: commit_def syncEffect_accepted)

lemma commit_refused:
  "setItemFails (localStorage w) \<Longrightarrow>
   commit t w =
     Inl (QuotaExceededError,
          \<lparr>theme = t,
           window = w\<lparr>classList := add (remove (classList w) [''light'', ''dark'']) (Theme_str t)\<rparr>\<rparr>)"
  by (simp add: commit_def syncEffect_refused)

lemma outcome_commit_theme: "theme (outcome (commit t w)) = t"
  by (cases "setItemFails (localStorage w)")
    (simp_all add: commit_accepted commit_refused outcome_def)

lemma outcome_commit_classList:
  "classList (window (outcome (commit t w))) =
     add (remove (classList w) [''light'', ''dark'']) (Theme_str t)"
  by (cases "setItemFails (localStorage w)")
    (simp_all add: commit_accepted commit_refused outcome_def)

lemma commit_Inr_stored:
  assumes "commit t w = Inr a'"
  shows "theme a' = t \<and> getItem (localStorage (window a')) ''theme'' = Some (Theme_str t)"
proof (cases "setItemFails (localStorage w)")
  case True
  with assms show ?thesis by (simp add: commit_refused)
next
  case False
  with assms show ?thesis by (auto simp: commit_accepted getItem_def)
qed

lemma initialTheme_stored:
  "getItem (localStorage w) ''theme'' = Some (Theme_str t) \<Longrightarrow> initialTheme (Some w) = t"
  by (simp add: initialTheme_def isValidTheme_Theme_str asTheme_Theme_str)

section \<open>Toggling\<close>

lemma nextTheme_neq: "nextTheme t \<noteq> t"
  by (cases t) (simp_all add: nextTheme_def)

lemma nextTheme_twice: "nextTheme (nextTheme t) = t"
  by (cases t) (simp_all add: nextTheme_def)

lemma nextState_toggleTheme: "nextState (toggleTheme p) = nextTheme (nextState p)"
  by (simp add: nextState_def toggleTheme_def setTheme_def)

lemma nextState_idle: "nextState (idle a) = theme a"
  by (simp add: nextState_def idle_def)

lemma rendered_toggleTheme: "rendered (toggleTheme p) = rendered p"
  by (simp add: toggleTheme_def setTheme_def)

lemma rendered_idle: "rendered (idle a) = a"
  by (simp add: idle_def)

text \<open>One call, then the render: the updater never returns its argument, so the effect runs.\<close>

lemma render_toggleTheme_idle:
  "render (toggleTheme (idle a)) = commit (nextTheme (theme a)) (window a)"
  by (simp add: render_def Let_def nextState_toggleTheme nextState_idle rendered_toggleTheme
      rendered_idle nextTheme_neq)

text \<open>Two calls in one turn, then the render: the state is that of the last render, no effect runs.\<close>

lemma render_toggleTheme_twice:
  "render (toggleTheme (toggleTheme (idle a))) = Inr a"
  by (simp add: render_def Let_def nextState_toggleTheme nextState_idle rendered_toggleTheme
      rendered_idle nextTheme_twice)

lemma toggle_accepted:
  assumes "\<not> setItemFails (localStorage (window a))"
  shows "\<exists>a'. render (toggleTheme (idle a)) = Inr a' \<and> theme a' = nextTheme (theme a) \<and>
           \<not> setItemFails (localStorage (window a')) \<and>
           setItemLog (localStorage (window a')) =
             setItemLog (localStorage (window a)) @ [(''theme'', Theme_str (nextTheme (theme a)))]"
  using assms by (simp add: render_toggleTheme_idle commit_accepted)

lemma toggles_log_prefix:
  assumes "\<not> setItemFails (localStorage (window a))"
  shows "\<exists>a' ws. toggles n a = Inr a' \<and>
           setItemLog (localStorage (window a')) = setItemLog (localStorage (window a)) @ ws"
  using assms
proof (induction n arbitrary: a)
  case 0
  then show ?case by simp
next
  case (Suc n)
  from toggle_accepted [OF Suc.prems]
  obtain b where b: "render (toggleTheme (idle a)) = Inr b"
    "\<not> setItemFails (localStorage (window b))"
    "setItemLog (localStorage (window b)) =
       setItemLog (localStorage (window a)) @ [(''theme'', Theme_str (nextTheme (theme a)))]"
    by blast
  from Suc.IH [OF b(2)] obtain a' ws where
    "toggles n b = Inr a'"
    "setItemLog (localStorage (window a')) = setItemLog (localStorage (window b)) @ ws"
    by blast
  then show ?case using b(1) b(3) by simp
qed

text \<open>
  C1, as the specification states it: every change of the theme that a \<open>toggleTheme\<close>
  call makes triggers the storage write and the synchronisation of the document root.
  Two calls in one turn change the theme from dark to light and from light to dark, and
  the render that follows runs no effect: nothing is written and the browser is as it
  was.
\<close>

theorem batched_toggles_run_no_effect:
  "nextState (idle darkApp) = Dark \<and>
   nextState (toggleTheme (idle darkApp)) = Light \<and>
   nextState (toggleTheme (toggleTheme (idle darkApp))) = Dark \<and>
   render (toggleTheme (toggleTheme (idle darkApp))) = Inr darkApp"
  by (simp add: render_toggleTheme_twice nextState_toggleTheme nextState_idle)
    (simp add: nextTheme_def darkApp_def)

text \<open>
  C1, amended. \<open>toggleTheme\<close> turns a dark theme into light and a light theme into dark.
  The call never fails: it queues the update and leaves the rendered provider and the
  browser alone. When the call is rendered before any other call, the commit has the new
  theme and runs the effect: the class list of the document root is synchronised with
  the new theme, and \<^verbatim>\<open>setItem\<close> is called with the key \<^verbatim>\<open>"theme"\<close> and the new theme's
  string, its result being the storage of the commit and its exception the commit's.
\<close>

theorem toggleTheme_flips_and_triggers:
  "rendered (toggleTheme p) = rendered p \<and>
   nextState (toggleTheme p) = (if nextState p = Dark then Light else Dark) \<and>
   theme (outcome (render (toggleTheme (idle a)))) = (if theme a = Dark then Light else Dark) \<and>
   classList (window (outcome (render (toggleTheme (idle a))))) =
     add (remove (classList (window a)) [''light'', ''dark''])
       (Theme_str (nextTheme (theme a))) \<and>
   (case setItem (localStorage (window a)) ''theme'' (Theme_str (nextTheme (theme a))) of
      Inl e \<Rightarrow>
        render (toggleTheme (idle a)) =
          Inl (e, \<lparr>theme = nextTheme (theme a),
                   window = (window a)\<lparr>classList :=
                     add (remove (classList (window a)) [''light'', ''dark''])
                       (Theme_str (nextTheme (theme a)))\<rparr>\<rparr>)
    | Inr st \<Rightarrow>
        render (toggleTheme (idle a)) =
          Inr \<lparr>theme = nextTheme (theme a),
               window = \<lparr>localStorage = st,
                         classList = add (remove (classList (window a)) [''light'', ''dark''])
                           (Theme_str (nextTheme (theme a)))\<rparr>\<rparr>)"
proof (intro conjI)
  show "rendered (toggleTheme p) = rendered p"
    by (rule rendered_toggleTheme)
  show "nextState (toggleTheme p) = (if nextState p = Dark then Light else Dark)"
    by (simp add: nextState_toggleTheme nextTheme_def)
  show "theme (outcome (render (toggleTheme (idle a)))) = (if theme a = Dark then Light else Dark)"
    by (simp add: render_toggleTheme_idle outcome_commit_theme nextTheme_def)
  show "classList (window (outcome (render (toggleTheme (idle a))))) =
     add (remove (classList (window a)) [''light'', ''dark''])
       (Theme_str (nextTheme (theme a)))"
    by (simp add: render_toggleTheme_idle outcome_commit_classList)
  show "case setItem (localStorage (window a)) ''theme'' (Theme_str (nextTheme (theme a))) of
      Inl e \<Rightarrow>
        render (toggleTheme (idle a)) =
          Inl (e, \<lparr>theme = nextTheme (theme a),
                   window = (window a)\<lparr>classList :=
                     add (remove (classList (window a)) [''light'', ''dark''])
                       (Theme_str (nextTheme (theme a)))\<rparr>\<rparr>)
    | Inr st \<Rightarrow>
        render (toggleTheme (idle a)) =
          Inr \<lparr>theme = nextTheme (theme a),
               window = \<lparr>localStorage = st,
                         classList = add (remove (classList (window a)) [''light'', ''dark''])
                           (Theme_str (nextTheme (theme a)))\<rparr>\<rparr>"
    by (cases "setItemFails (localStorage (window a))")
      (simp_all add: render_toggleTheme_idle commit_accepted commit_refused setItem_def)
qed

theorem toggleTheme_flips_and_triggers_witness:
  "rendered (toggleTheme (idle darkApp)) = darkApp \<and>
   nextState (toggleTheme (idle darkApp)) = Light \<and>
   render (toggleTheme (idle darkApp)) = Inr lightApp \<and>
   classList (window lightApp) = [''light''] \<and>
   getItem (localStorage (window lightApp)) ''theme'' = Some ''light'' \<and>
   setItemLog (localStorage (window lightApp)) =
     setItemLog (localStorage (window darkApp)) @ [(''theme'', ''light'')]"
proof -
  have s: "setItem (localStorage (window darkApp)) ''theme'' (Theme_str (nextTheme (theme darkApp))) =
      Inr (localStorage (window lightApp))"
    by (simp add: setItem_def darkApp_def lightApp_def emptyStorage_def nextTheme_def)
  have i: "nextState (idle darkApp) = Dark"
    by (simp add: nextState_idle darkApp_def)
  from toggleTheme_flips_and_triggers [of "idle darkApp" darkApp] s i
  have "rendered (toggleTheme (idle darkApp)) = rendered (idle darkApp)"
    and "nextState (toggleTheme (idle darkApp)) = Light"
    and "render (toggleTheme (idle darkApp)) =
          Inr \<lparr>theme = nextTheme (theme darkApp),
               window = \<lparr>localStorage = localStorage (window lightApp),
                         classList = add (remove (classList (window darkApp)) [''light'', ''dark''])
                           (Theme_str (nextTheme (theme darkApp)))\<rparr>\<rparr>"
    by simp_all
  then show ?thesis
    by (simp add: idle_def darkApp_def lightApp_def emptyStorage_def nextTheme_def
        add_def remove_def getItem_def)
qed

text \<open>
  C3. After a change of the theme the document root carries exactly one of the classes
  \<^verbatim>\<open>dark\<close> and \<^verbatim>\<open>light\<close>, the one of the new theme: never both and never neither. The
  class list is written before storage is, so this holds however the commit ends.
\<close>

theorem marker_matches_theme:
  "contains (classList (window (outcome (render (toggleTheme (idle a)))))) ''dark'' =
     (theme (outcome (render (toggleTheme (idle a)))) = Dark) \<and>
   contains (classList (window (outcome (render (toggleTheme (idle a)))))) ''light'' =
     (theme (outcome (render (toggleTheme (idle a)))) = Light)"
  by (simp add: render_toggleTheme_idle outcome_commit_theme outcome_commit_classList
      contains_marker_dark contains_marker_light)

theorem marker_matches_theme_witness:
  "theme (outcome (render (toggleTheme (idle darkApp)))) = Light \<and>
   contains (classList (window (outcome (render (toggleTheme (idle darkApp)))))) ''light'' \<and>
   \<not> contains (classList (window (outcome (render (toggleTheme (idle darkApp)))))) ''dark''"
proof -
  have "theme (outcome (render (toggleTheme (idle darkApp)))) = Light"
    by (simp add: render_toggleTheme_idle outcome_commit_theme nextTheme_def darkApp_def)
  with marker_matches_theme [of darkApp] show ?thesis by simp
qed

text \<open>
  C4. When a change of the theme has completed, storage holds under the key \<^verbatim>\<open>"theme"\<close>
  the string of the current theme, whatever it held before; a fresh initialisation that
  reads this storage adopts the same theme, whatever classes its document root carries.
\<close>

theorem storage_round_trip:
  assumes "render (toggleTheme (idle a)) = Inr a'"
  shows "getItem (localStorage (window a')) ''theme'' = Some (Theme_str (theme a')) \<and>
         initialTheme (Some \<lparr>localStorage = localStorage (window a'), classList = cl\<rparr>) = theme a'"
proof -
  from assms have c: "commit (nextTheme (theme a)) (window a) = Inr a'"
    by (simp add: render_toggleTheme_idle)
  have g: "getItem (localStorage (window a')) ''theme'' = Some (Theme_str (theme a'))"
    using commit_Inr_stored [OF c] by simp
  moreover have
    "initialTheme (Some \<lparr>localStorage = localStorage (window a'), classList = cl\<rparr>) = theme a'"
    by (rule initialTheme_stored) (simp add: g)
  ultimately show ?thesis by simp
qed

theorem storage_round_trip_witness:
  "render (toggleTheme (idle darkApp)) = Inr lightApp \<and>
   getItem (localStorage (window darkApp)) ''theme'' = Some ''dark'' \<and>
   getItem (localStorage (window lightApp)) ''theme'' = Some ''light'' \<and>
   initialTheme (Some \<lparr>localStorage = localStorage (window lightApp), classList = [''dark'']\<rparr>) = Light"
proof -
  have h: "render (toggleTheme (idle darkApp)) = Inr lightApp"
    by (simp add: render_toggleTheme_idle commit_accepted darkApp_def lightApp_def
        emptyStorage_def nextTheme_def add_def remove_def)
  from storage_round_trip [OF h, of "[''dark'']"] h show ?thesis
    by (simp add: lightApp_def darkApp_def getItem_def emptyStorage_def)
qed

section \<open>Sequences of toggles\<close>





text \<open>
  C7, as the specification states it: from the theme dark, two \<open>toggleTheme\<close> calls end
  with the theme dark and with exactly two writes to storage. Two calls in one turn end
  with the theme dark and with no write at all: the \<^verbatim>\<open>setItem\<close> history is the one
  before the calls.
\<close>

theorem toggle_twice_in_one_turn_no_write:
  "theme darkApp = Dark \<and>
   theme (outcome (render (toggleTheme (toggleTheme (idle darkApp))))) = Dark \<and>
   setItemLog (localStorage (window (outcome (render (toggleTheme (toggleTheme (idle darkApp))))))) =
     setItemLog (localStorage (window darkApp))"
  by (simp add: render_toggleTheme_twice outcome_def) (simp add: darkApp_def)

text \<open>
  C7, amended. From a rendered provider whose theme is dark, in a browser whose storage
  accepts writes, two \<open>toggleTheme\<close> calls, each rendered and committed before the next
  call (each in a UI event of its own), end with the theme dark again, and exactly two
  writes to storage happen in between: \<^verbatim>\<open>"light"\<close>, then \<^verbatim>\<open>"dark"\<close>, both under the key
  \<^verbatim>\<open>"theme"\<close>.
\<close>

theorem toggle_twice_from_dark:
  assumes "theme a = Dark" and "\<not> setItemFails (localStorage (window a))"
  shows "\<exists>b c. render (toggleTheme (idle a)) = Inr b \<and>
           render (toggleTheme (idle b)) = Inr c \<and>
           toggles 2 a = Inr c \<and> theme c = Dark \<and>
           setItemLog (localStorage (window b)) =
             setItemLog (localStorage (window a)) @ [(''theme'', ''light'')] \<and>
           setItemLog (localStorage (window c)) =
             setItemLog (localStorage (window a)) @ [(''theme'', ''light''), (''theme'', ''dark'')]"
proof -
  from toggle_accepted [OF assms(2)]
  obtain b where b: "render (toggleTheme (idle a)) = Inr b" "theme b = Light"
    "\<not> setItemFails (localStorage (window b))"
    "setItemLog (localStorage (window b)) =
       setItemLog (localStorage (window a)) @ [(''theme'', ''light'')]"
    using assms(1) by (auto simp: nextTheme_def)
  from toggle_accepted [OF b(3)]
  obtain c where c: "render (toggleTheme (idle b)) = Inr c" "theme c = Dark"
    "setItemLog (localStorage (window c)) =
       setItemLog (localStorage (window b)) @ [(''theme'', ''dark'')]"
    using b(2) by (auto simp: nextTheme_def)
  have "toggles 2 a = Inr c" using b(1) c(1) by (simp add: numeral_2_eq_2)
  then show ?thesis using b(1) b(4) c by auto
qed

theorem toggle_twice_from_dark_witness:
  "theme darkApp = Dark \<and> \<not> setItemFails (localStorage (window darkApp)) \<and>
   render (toggleTheme (idle darkApp)) = Inr lightApp \<and>
   theme (outcome (render (toggleTheme (idle lightApp)))) = Dark \<and>
   setItemLog (localStorage (window (outcome (render (toggleTheme (idle lightApp)))))) =
     [(''theme'', ''light''), (''theme'', ''dark'')]"
proof -
  have d: "theme darkApp = Dark" by (simp add: darkApp_def)
  have h: "\<not> setItemFails (localStorage (window darkApp))"
    by (simp add: darkApp_def emptyStorage_def)
  have l: "setItemLog (localStorage (window darkApp)) = []"
    by (simp add: darkApp_def emptyStorage_def)
  have r: "render (toggleTheme (idle darkApp)) = Inr lightApp"
    by (simp add: render_toggleTheme_idle commit_accepted darkApp_def lightApp_def
        emptyStorage_def nextTheme_def add_def remove_def)
  from toggle_twice_from_dark [OF d h] obtain b c where
    "render (toggleTheme (idle darkApp)) = Inr b"
    "render (toggleTheme (idle b)) = Inr c" "theme c = Dark"
    "setItemLog (localStorage (window c)) = [(''theme'', ''light''), (''theme'', ''dark'')]"
    using l by auto
  then show ?thesis using d h r by (simp add: outcome_def)
qed

section \<open>Storage that refuses writes\<close>

text \<open>
  C9, as the specification states it: when the storage write throws during a change of
  the theme, the change still completes, with only the theme in memory updated. The code
  has no handler: at \<open>refusedApp\<close> the commit of the change ends with the exception.
\<close>

theorem commit_storage_refused_throws:
  "setItemFails (localStorage (window refusedApp)) \<and>
   render (toggleTheme (idle refusedApp)) =
     Inl (QuotaExceededError,
          \<lparr>theme = Light, window = \<lparr>localStorage = refusingStorage, classList = [''light'']\<rparr>\<rparr>)"
  by (simp add: render_toggleTheme_idle commit_refused refusedApp_def refusingStorage_def
      nextTheme_def add_def remove_def)

text \<open>
  C9, amended. When the storage write throws during a change of the theme, the error is
  not surfaced to the caller of \<open>toggleTheme\<close>: the call queues the update and returns.
  In the commit that follows, the provider does not catch the exception: it leaves the
  synchronisation effect. By then the theme in memory is the new one and the class of the
  document root has been replaced; storage is as it was.
\<close>

theorem toggleTheme_storage_refused:
  assumes "setItemFails (localStorage (window a))"
  shows "toggleTheme (idle a) = \<lparr>rendered = a, queue = [nextTheme]\<rparr> \<and>
         nextState (toggleTheme (idle a)) = nextTheme (theme a) \<and>
         render (toggleTheme (idle a)) =
           Inl (QuotaExceededError,
                \<lparr>theme = nextTheme (theme a),
                 window = (window a)\<lparr>classList :=
                   add (remove (classList (window a)) [''light'', ''dark''])
                     (Theme_str (nextTheme (theme a)))\<rparr>\<rparr>)"
  using assms
  by (simp add: render_toggleTheme_idle commit_refused nextState_toggleTheme nextState_idle)
    (simp add: toggleTheme_def setTheme_def idle_def)

theorem toggleTheme_storage_refused_witness:
  "setItemFails (localStorage (window refusedApp)) \<and>
   rendered (toggleTheme (idle refusedApp)) = refusedApp \<and>
   nextState (toggleTheme (idle refusedApp)) = Light \<and>
   isl (render (toggleTheme (idle refusedApp))) \<and>
   localStorage (window (outcome (render (toggleTheme (idle refusedApp))))) = refusingStorage"
proof -
  have h: "setItemFails (localStorage (window refusedApp))"
    by (simp add: refusedApp_def refusingStorage_def)
  from toggleTheme_storage_refused [OF h]
  have q: "toggleTheme (idle refusedApp) = \<lparr>rendered = refusedApp, queue = [nextTheme]\<rparr>"
    and n: "nextState (toggleTheme (idle refusedApp)) = nextTheme (theme refusedApp)"
    and r: "render (toggleTheme (idle refusedApp)) =
           Inl (QuotaExceededError,
                \<lparr>theme = nextTheme (theme refusedApp),
                 window = (window refusedApp)\<lparr>classList :=
                   add (remove (classList (window refusedApp)) [''light'', ''dark''])
                     (Theme_str (nextTheme (theme refusedApp)))\<rparr>\<rparr>)"
    by blast+
  have 1: "rendered (toggleTheme (idle refusedApp)) = refusedApp"
    by (simp add: q)
  have t: "theme refusedApp = Dark"
    by (simp add: refusedApp_def)
  have 2: "nextState (toggleTheme (idle refusedApp)) = Light"
    by (simp add: n t nextTheme_def)
  have 3: "isl (render (toggleTheme (idle refusedApp)))"
    by (simp add: r)
  have 4: "localStorage (window (outcome (render (toggleTheme (idle refusedApp))))) = refusingStorage"
    by (simp add: r outcome_def) (simp add: refusedApp_def)
  show ?thesis using h 1 2 3 4 by simp
qed

section \<open>Mounting\<close>

text \<open>
  C10. The effect runs at mount, before any toggle. So once the provider has mounted in
  a browser whose storage accepts writes, storage holds under \<^verbatim>\<open>"theme"\<close> the string of
  the initial theme, a valid one, whatever it held before (nothing, or an invalid
  value); and this write comes before every write of a later toggle.
\<close>

theorem mount_stores_initial_theme:
  assumes "\<not> setItemFails (localStorage w)"
  shows "\<exists>a. mount w = Inr a \<and> theme a = initialTheme (Some w) \<and>
           getItem (localStorage (window a)) ''theme'' = Some (Theme_str (theme a)) \<and>
           isValidTheme (getItem (localStorage (window a)) ''theme'') \<and>
           setItemLog (localStorage (window a)) =
             setItemLog (localStorage w) @ [(''theme'', Theme_str (theme a))] \<and>
           (\<forall>n. \<exists>a' ws. toggles n a = Inr a' \<and>
              setItemLog (localStorage (window a')) =
                setItemLog (localStorage w) @ (''theme'', Theme_str (theme a)) # ws)"
proof -
  define a where "a =
    \<lparr>theme = initialTheme (Some w),
     window = \<lparr>localStorage = (localStorage w)
                \<lparr>items := (items (localStorage w))(''theme'' \<mapsto> Theme_str (initialTheme (Some w))),
                 setItemLog := setItemLog (localStorage w) @
                   [(''theme'', Theme_str (initialTheme (Some w)))]\<rparr>,
              classList = add (remove (classList w) [''light'', ''dark''])
                (Theme_str (initialTheme (Some w)))\<rparr>\<rparr>"
  have m: "mount w = Inr a"
    using assms by (simp add: mount_def commit_accepted a_def)
  have t: "theme a = initialTheme (Some w)" by (simp add: a_def)
  have g: "getItem (localStorage (window a)) ''theme'' = Some (Theme_str (theme a))"
    by (simp add: a_def getItem_def)
  have l: "setItemLog (localStorage (window a)) =
             setItemLog (localStorage w) @ [(''theme'', Theme_str (theme a))]"
    by (simp add: a_def)
  have f: "\<not> setItemFails (localStorage (window a))"
    using assms by (simp add: a_def)
  have p: "\<exists>a' ws. toggles n a = Inr a' \<and>
              setItemLog (localStorage (window a')) =
                setItemLog (localStorage w) @ (''theme'', Theme_str (theme a)) # ws" for n
    using toggles_log_prefix [OF f, of n] by (auto simp: l)
  show ?thesis
    using m t g l p by (simp add: isValidTheme_Theme_str)
qed

theorem mount_stores_initial_theme_witness:
  "\<not> setItemFails (localStorage blueWindow) \<and>
   getItem (localStorage blueWindow) ''theme'' = Some ''blue'' \<and>
   initialTheme (Some blueWindow) = Dark \<and>
   getItem (localStorage (window (outcome (mount blueWindow)))) ''theme'' = Some ''dark'' \<and>
   setItemLog (localStorage (window (outcome (mount blueWindow)))) = [(''theme'', ''dark'')]"
proof -
  have h: "\<not> setItemFails (localStorage blueWindow)"
    by (simp add: blueWindow_def emptyStorage_def)
  have i: "initialTheme (Some blueWindow) = Dark"
    by (simp add: initialTheme_def blueWindow_def emptyStorage_def getItem_def
        isValidTheme_def contains_def)
  have l: "setItemLog (localStorage blueWindow) = []"
    by (simp add: blueWindow_def emptyStorage_def)
  from mount_stores_initial_theme [OF h] obtain a where
    "mount blueWindow = Inr a" "theme a = Dark"
    "getItem (localStorage (window a)) ''theme'' = Some ''dark''"
    "setItemLog (localStorage (window a)) = [(''theme'', ''dark'')]"
    using i l by auto
  then show ?thesis using h i
    by (simp add: outcome_def blueWindow_def emptyStorage_def getItem_def)
qed

end
